theory Spec2Isabelle
  imports Complex_Main "HOL-Library.AList"
begin

section \<open>JavaScript values\<close>

text \<open>
  The handlers test values for truthiness: a string is falsy when it is absent
  (\<open>null\<close>, \<open>undefined\<close>) or empty, a number when it is zero.
\<close>

definition truthy :: "string option \<Rightarrow> bool" where
  "truthy v = (case v of None \<Rightarrow> False | Some s \<Rightarrow> s \<noteq> [])"

text \<open>\<open>a || b\<close> on strings.\<close>

definition or_else :: "string option \<Rightarrow> string \<Rightarrow> string" where
  "or_else v d = (case v of None \<Rightarrow> d | Some s \<Rightarrow> if s = [] then d else s)"

text \<open>\<open>a || null\<close> on strings.\<close>

definition or_null :: "string option \<Rightarrow> string option" where
  "or_null v = (if truthy v then v else None)"

text \<open>
  \<open>Number.prototype.toString\<close> on a remote id. Remote ids are non-negative integers
  (below \<open>2^53\<close> in the running system, unbounded here); the result is the decimal numeral.
\<close>

definition digit_char :: "nat \<Rightarrow> char" where
  "digit_char d = char_of (48 + d)"

fun toString :: "nat \<Rightarrow> string" where
  "toString n = (if n < 10 then [digit_char n] else toString (n div 10) @ [digit_char (n mod 10)])"

declare toString.simps [simp del]

text \<open>
  \<open>parseInt\<close> with no radix: leading white space is skipped, a sign is read, a
  \<open>0x\<close> prefix selects radix 16, and the longest prefix of digits is the value.
  \<open>None\<close> is \<open>NaN\<close>.
\<close>

definition is_ws :: "char \<Rightarrow> bool" where
  "is_ws c = (of_char c \<in> {9, 10, 11, 12, 13, 32 :: nat})"

definition digit_val :: "char \<Rightarrow> nat option" where
  "digit_val c =
     (let k = (of_char c :: nat) in
      if 48 \<le> k \<and> k \<le> 57 then Some (k - 48)
      else if 97 \<le> k \<and> k \<le> 102 then Some (k - 87)
      else if 65 \<le> k \<and> k \<le> 70 then Some (k - 55)
      else None)"

definition is_digit :: "nat \<Rightarrow> char \<Rightarrow> bool" where
  "is_digit radix c = (case digit_val c of None \<Rightarrow> False | Some d \<Rightarrow> d < radix)"

definition digits_value :: "nat \<Rightarrow> string \<Rightarrow> nat" where
  "digits_value radix ds = foldl (\<lambda>a c. a * radix + the (digit_val c)) 0 ds"

definition parseInt :: "string \<Rightarrow> int option" where
  "parseInt s =
     (let s1 = dropWhile is_ws s;
          (sign, s2) = (case s1 of
                          c # r \<Rightarrow> if c = CHR ''-'' then (- 1 :: int, r)
                                   else if c = CHR ''+'' then (1, r) else (1, s1)
                        | [] \<Rightarrow> (1, s1));
          (radix, s3) = (case s2 of
                           a # b # r \<Rightarrow> if a = CHR ''0'' \<and> (b = CHR ''x'' \<or> b = CHR ''X'')
                                        then (16 :: nat, r) else (10, s2)
                         | _ \<Rightarrow> (10, s2));
          ds = takeWhile (is_digit radix) s3
      in if ds = [] then None else Some (sign * int (digits_value radix ds)))"

section \<open>Local catalog store\<close>

text \<open>The datasource of the schema: \<open>provider = "mongodb"\<close>.\<close>

datatype provider = Mongodb | Postgresql | Mysql

definition datasource_provider :: provider where
  "datasource_provider = Mongodb"

text \<open>
  The Prisma schema. Object ids are assigned by the store and only ever compared, so they
  are numbers drawn from a counter here. A \<open>Json?\<close> value of \<open>externalIds\<close> is \<open>null\<close>
  or an object from remote-system names to remote ids (\<open>Record<string, string>\<close>), kept
  as an association list in key order. Prices are \<open>Float\<close>; they are only copied and
  multiplied by a quantity, and are real numbers here. The \<open>createdAt\<close> and
  \<open>updatedAt\<close> columns, which the store maintains from the clock, are left out.
\<close>

type_synonym oid = nat

record product =
  product_id :: oid
  name :: string
  description :: "string option"
  barcode :: "string option"
  imageUrl :: "string option"
  price :: real
  stockCount :: int
  productTypeId :: oid
  skuId :: "oid option"
  externalIds :: "(string \<times> string) list option"

record product_type =
  pt_id :: oid
  pt_name :: string
  pt_description :: "string option"

record sku =
  sku_id :: oid
  sku_code :: string

record sale =
  sale_id :: oid
  sale_productId :: oid
  quantity :: int
  totalPrice :: real

record integration_settings =
  integrationType :: string
  isEnabled :: bool
  settings :: "(string \<times> string) list"

record store =
  products :: "product list"
  productTypes :: "product_type list"
  skus :: "sku list"
  sales :: "sale list"
  integrationSettings :: "integration_settings list"
  next_oid :: oid

datatype prisma_error = RecordNotFound | UniqueConstraint | ValidationError

text \<open>The \<open>data\<close> argument of \<open>prisma.product.update\<close>: a field that is \<open>None\<close> is not written.\<close>

record product_data =
  d_name :: "string option"
  d_description :: "string option option"
  d_price :: "real option"
  d_stockCount :: "int option"
  d_barcode :: "string option option"
  d_externalIds :: "(string \<times> string) list option"

definition no_data :: product_data where
  "no_data = \<lparr>d_name = None, d_description = None, d_price = None, d_stockCount = None,
              d_barcode = None, d_externalIds = None\<rparr>"

definition apply_data :: "product_data \<Rightarrow> product \<Rightarrow> product" where
  "apply_data d p =
     p\<lparr>name := (case d_name d of None \<Rightarrow> name p | Some v \<Rightarrow> v),
       description := (case d_description d of None \<Rightarrow> description p | Some v \<Rightarrow> v),
       price := (case d_price d of None \<Rightarrow> price p | Some v \<Rightarrow> v),
       stockCount := (case d_stockCount d of None \<Rightarrow> stockCount p | Some v \<Rightarrow> v),
       barcode := (case d_barcode d of None \<Rightarrow> barcode p | Some v \<Rightarrow> v),
       externalIds := (case d_externalIds d of None \<Rightarrow> externalIds p | Some v \<Rightarrow> Some v)\<rparr>"

definition prisma_product_findMany :: "store \<Rightarrow> product list" where
  "prisma_product_findMany st = products st"

definition prisma_product_findUnique :: "oid \<Rightarrow> store \<Rightarrow> product option" where
  "prisma_product_findUnique i st = find (\<lambda>p. product_id p = i) (products st)"

definition prisma_product_findUnique_barcode :: "string \<Rightarrow> store \<Rightarrow> product option" where
  "prisma_product_findUnique_barcode b st = find (\<lambda>p. barcode p = Some b) (products st)"

text \<open>
  \<open>findFirst\<close> with the filter \<open>externalIds: { path: [k], equals: v }\<close>. Filtering a
  \<open>Json\<close> field by \<open>path\<close> exists for the SQL providers only, where it gives the first
  product whose \<open>externalIds\<close> object has \<open>v\<close> under the key \<open>k\<close>. With the
  \<open>mongodb\<close> provider the query is refused when it is validated and the call throws;
  the bulk import says as much where it scans \<open>findMany\<close> by hand instead
  (``this avoids the issues with Prisma JSON filtering'').
\<close>

definition has_externalId :: "string \<Rightarrow> string \<Rightarrow> product \<Rightarrow> bool" where
  "has_externalId k v p =
     (case externalIds p of None \<Rightarrow> False | Some ids \<Rightarrow> map_of ids k = Some v)"

definition prisma_product_findFirst_externalId ::
  "string \<Rightarrow> string \<Rightarrow> store \<Rightarrow> prisma_error + product option" where
  "prisma_product_findFirst_externalId k v st =
     (if datasource_provider = Mongodb then Inl ValidationError
      else Inr (find (has_externalId k v) (products st)))"

text \<open>
  The \<open>@unique\<close> constraint on \<open>barcode\<close>: a write of a non-null barcode that another
  product holds is refused.
\<close>

definition barcode_taken :: "oid option \<Rightarrow> string option \<Rightarrow> store \<Rightarrow> bool" where
  "barcode_taken self b st =
     (case b of
        None \<Rightarrow> False
      | Some v \<Rightarrow> list_ex (\<lambda>q. Some (product_id q) \<noteq> self \<and> barcode q = Some v) (products st))"

definition prisma_product_update :: "oid \<Rightarrow> product_data \<Rightarrow> store \<Rightarrow> prisma_error + (product \<times> store)" where
  "prisma_product_update i d st =
     (case prisma_product_findUnique i st of
        None \<Rightarrow> Inl RecordNotFound
      | Some p \<Rightarrow>
          (case d_barcode d of
             Some b \<Rightarrow> if barcode_taken (Some i) b st then Inl UniqueConstraint
                       else Inr (apply_data d p,
                                 st\<lparr>products := map (\<lambda>q. if product_id q = i then apply_data d q else q)
                                                     (products st)\<rparr>)
           | None \<Rightarrow> Inr (apply_data d p,
                          st\<lparr>products := map (\<lambda>q. if product_id q = i then apply_data d q else q)
                                              (products st)\<rparr>)))"

text \<open>\<open>prisma.product.create\<close>: the store assigns the id and appends the row.\<close>

definition prisma_product_create :: "product \<Rightarrow> store \<Rightarrow> prisma_error + (product \<times> store)" where
  "prisma_product_create new st =
     (if barcode_taken None (barcode new) st then Inl UniqueConstraint
      else (let p = new\<lparr>product_id := next_oid st\<rparr>
            in Inr (p, st\<lparr>products := products st @ [p], next_oid := Suc (next_oid st)\<rparr>)))"

definition prisma_productType_findFirst :: "string \<Rightarrow> store \<Rightarrow> product_type option" where
  "prisma_productType_findFirst n st = find (\<lambda>t. pt_name t = n) (productTypes st)"

definition prisma_productType_create :: "string \<Rightarrow> string option \<Rightarrow> store \<Rightarrow> product_type \<times> store" where
  "prisma_productType_create n d st =
     (let t = \<lparr>pt_id = next_oid st, pt_name = n, pt_description = d\<rparr>
      in (t, st\<lparr>productTypes := productTypes st @ [t], next_oid := Suc (next_oid st)\<rparr>))"

definition prisma_sale_create :: "oid \<Rightarrow> int \<Rightarrow> real \<Rightarrow> store \<Rightarrow> sale \<times> store" where
  "prisma_sale_create i q t st =
     (let s = \<lparr>sale_id = next_oid st, sale_productId = i, quantity = q, totalPrice = t\<rparr>
      in (s, st\<lparr>sales := sales st @ [s], next_oid := Suc (next_oid st)\<rparr>))"

definition prisma_integrationSettings_findUnique :: "string \<Rightarrow> store \<Rightarrow> integration_settings option" where
  "prisma_integrationSettings_findUnique t st = find (\<lambda>s. integrationType s = t) (integrationSettings st)"

section \<open>Integration settings\<close>

text \<open>\<open>getShopifySettings\<close>: the settings row of type \<open>shopify\<close>, or \<open>null\<close>.\<close>

definition getShopifySettings :: "store \<Rightarrow> integration_settings option" where
  "getShopifySettings st = prisma_integrationSettings_findUnique ''shopify'' st"

section \<open>Webhook verifier and dispatcher\<close>

text \<open>
  A request carries the three headers the handler reads and its raw body. The parsed body
  of a product notification has the remote id, the title and the HTML body (which the
  platform may send as \<open>null\<close>).
\<close>

record webhook_request =
  hmac_header :: "string option"
  shop_domain :: "string option"
  topic :: "string option"
  body :: string

record webhook_data =
  wd_id :: nat
  wd_title :: string
  wd_body_html :: "string option"

datatype json_body = ErrorBody string | SuccessBody | SaleBody sale

record response =
  status :: nat
  json :: json_body

text \<open>
  \<open>handleProductUpdate\<close>. An exception of the store, in the lookup or in the update,
  is caught and logged inside the handler, which then leaves the store as it was.
\<close>

definition handleProductUpdate :: "webhook_data \<Rightarrow> store \<Rightarrow> store" where
  "handleProductUpdate data st =
     (let shopifyProductId = toString (wd_id data)
      in case prisma_product_findFirst_externalId ''shopify'' shopifyProductId st of
           Inl err \<Rightarrow> st
         | Inr None \<Rightarrow> st
         | Inr (Some product) \<Rightarrow>
             (case prisma_product_update (product_id product)
                     (no_data\<lparr>d_name := Some (wd_title data),
                              d_description := Some (wd_body_html data)\<rparr>) st of
                Inl err \<Rightarrow> st
              | Inr (updated, st') \<Rightarrow> st'))"

text \<open>\<open>handleProductDelete\<close>: the link is to be removed, the product stays.\<close>

definition handleProductDelete :: "webhook_data \<Rightarrow> store \<Rightarrow> store" where
  "handleProductDelete data st =
     (let shopifyProductId = toString (wd_id data)
      in case prisma_product_findFirst_externalId ''shopify'' shopifyProductId st of
           Inl err \<Rightarrow> st
         | Inr None \<Rightarrow> st
         | Inr (Some product) \<Rightarrow>
             (case prisma_product_update (product_id product) (no_data\<lparr>d_externalIds := Some []\<rparr>) st of
                Inl err \<Rightarrow> st
              | Inr (updated, st') \<Rightarrow> st'))"

text \<open>\<open>handleInventoryUpdate\<close> only logs.\<close>

definition handleInventoryUpdate :: "webhook_data \<Rightarrow> store \<Rightarrow> store" where
  "handleInventoryUpdate data st = st"

text \<open>
  The webhook route's \<open>POST\<close>. The keyed digest
  \<open>crypto.createHmac('sha256', secret).update(body).digest('base64')\<close> and
  \<open>JSON.parse\<close> are parameters: \<open>hmac secret body\<close> is the digest, \<open>parse body\<close> is
  \<open>None\<close> when parsing throws. \<open>createHmac\<close> throws on a key that is \<open>undefined\<close>
  (no \<open>apiSecret\<close> in the settings object); every exception ends in the route's
  \<open>catch\<close>, which answers 500.
\<close>

definition POST_webhook ::
  "(string \<Rightarrow> string \<Rightarrow> string) \<Rightarrow> (string \<Rightarrow> webhook_data option) \<Rightarrow>
   webhook_request \<Rightarrow> store \<Rightarrow> response \<times> store" where
  "POST_webhook hmac parse req st =
     (case getShopifySettings st of
        None \<Rightarrow> (\<lparr>status = 400, json = ErrorBody ''Shopify integration not enabled''\<rparr>, st)
      | Some shopifySettings \<Rightarrow>
          if \<not> isEnabled shopifySettings
          then (\<lparr>status = 400, json = ErrorBody ''Shopify integration not enabled''\<rparr>, st)
          else if \<not> truthy (hmac_header req) \<or> \<not> truthy (shop_domain req)
          then (\<lparr>status = 401, json = ErrorBody ''Invalid webhook request''\<rparr>, st)
          else (case map_of (settings shopifySettings) ''apiSecret'' of
                  None \<Rightarrow> (\<lparr>status = 500, json = ErrorBody ''Failed to process webhook''\<rparr>, st)
                | Some secret \<Rightarrow>
                    if Some (hmac secret (body req)) \<noteq> hmac_header req
                    then (\<lparr>status = 401, json = ErrorBody ''Invalid webhook signature''\<rparr>, st)
                    else (case parse (body req) of
                            None \<Rightarrow> (\<lparr>status = 500, json = ErrorBody ''Failed to process webhook''\<rparr>, st)
                          | Some data \<Rightarrow>
                              (\<lparr>status = 200, json = SuccessBody\<rparr>,
                               if topic req = Some ''products/update'' then handleProductUpdate data st
                               else if topic req = Some ''products/delete'' then handleProductDelete data st
                               else if topic req = Some ''inventory_levels/update''
                                    then handleInventoryUpdate data st
                               else st))))"

section \<open>Remote catalog client\<close>

text \<open>
  What the sync engine sends (\<open>mapToShopifyProduct\<close>'s result) and what the platform
  answers with: the fields of a remote product, of its variants and of an inventory level
  that the code reads. An \<open>inventory_item_id\<close> of 0 stands for an absent one (both are
  falsy).
\<close>

record payload_variant =
  pv_price :: real
  pv_sku :: string
  pv_inventory_quantity :: int
  pv_inventory_management :: string

record shopify_payload =
  sp_title :: string
  sp_body_html :: string
  sp_vendor :: string
  sp_product_type :: string
  sp_barcode :: string
  sp_published :: bool
  sp_variants :: "payload_variant list"
  sp_images :: "string list"

record remote_variant =
  rv_price :: "string option"
  rv_barcode :: "string option"
  rv_inventory_item_id :: nat

record remote_product =
  rp_id :: nat
  rp_title :: string
  rp_body_html :: "string option"
  rp_product_type :: "string option"
  rp_variants :: "remote_variant list"
  rp_image_src :: "string option"

record inventory_level =
  il_location_id :: nat
  il_available :: "int option"

text \<open>
  The platform is outside the repository. Its behaviour is a parameter: one function per
  client method the engine calls, from the arguments and the platform's state \<open>'r\<close> to
  the answer and the next state. The answer \<open>None\<close> is a rejected promise (network
  failure, 4xx, 5xx). The id handed to \<open>update\<close> and \<open>get\<close> is the result of
  \<open>parseInt\<close>, \<open>None\<close> being \<open>NaN\<close>.
\<close>

record 'r platform =
  shopify_product_create :: "shopify_payload \<Rightarrow> 'r \<Rightarrow> remote_product option \<times> 'r"
  shopify_product_update :: "int option \<Rightarrow> shopify_payload \<Rightarrow> 'r \<Rightarrow> remote_product option \<times> 'r"
  shopify_product_get :: "int option \<Rightarrow> 'r \<Rightarrow> remote_product option \<times> 'r"
  shopify_product_list :: "nat \<Rightarrow> 'r \<Rightarrow> remote_product list option \<times> 'r"
  shopify_inventoryLevel_list :: "nat \<Rightarrow> 'r \<Rightarrow> inventory_level list option \<times> 'r"
  shopify_inventoryLevel_set :: "nat \<Rightarrow> nat \<Rightarrow> int \<Rightarrow> 'r \<Rightarrow> inventory_level option \<times> 'r"

text \<open>Every call the engine issues is recorded, in order, whatever the platform answers.\<close>

datatype call =
    ProductCreate shopify_payload
  | ProductUpdate "int option" shopify_payload
  | ProductGet "int option"
  | ProductList nat
  | InventoryLevelList nat
  | InventoryLevelSet nat nat int

text \<open>The calls that request a page of the remote catalog.\<close>

definition is_list_call :: "call \<Rightarrow> bool" where
  "is_list_call c = (case c of ProductList n \<Rightarrow> True | _ \<Rightarrow> False)"

record 'r world =
  db :: store
  shop :: 'r
  calls :: "call list"

definition remote_call :: "call \<Rightarrow> ('r \<Rightarrow> 'a option \<times> 'r) \<Rightarrow> 'r world \<Rightarrow> 'a option \<times> 'r world" where
  "remote_call c f w = (case f (shop w) of (res, r') \<Rightarrow> (res, w\<lparr>shop := r', calls := calls w @ [c]\<rparr>))"

section \<open>Sync engine\<close>

record shopify_client =
  shopName :: string
  accessToken :: string
  apiVersion :: string

text \<open>\<open>getShopifyClient\<close>: a client when the integration is enabled and has credentials.\<close>

definition getShopifyClient :: "store \<Rightarrow> shopify_client option" where
  "getShopifyClient st =
     (case getShopifySettings st of
        None \<Rightarrow> None
      | Some shopifySettings \<Rightarrow>
          if \<not> isEnabled shopifySettings then None
          else if \<not> truthy (map_of (settings shopifySettings) ''shopName'')
                  \<or> \<not> truthy (map_of (settings shopifySettings) ''accessToken'') then None
          else Some \<lparr>shopName = or_else (map_of (settings shopifySettings) ''shopName'') [],
                      accessToken = or_else (map_of (settings shopifySettings) ''accessToken'') [],
                      apiVersion = or_else (map_of (settings shopifySettings) ''apiVersion'') ''2023-10''\<rparr>)"

text \<open>A product as the callers pass it: the row with the relations they include.\<close>

record loaded_product =
  row :: product
  productType :: "product_type option"
  sku :: "sku option"

definition include_relations :: "store \<Rightarrow> product \<Rightarrow> loaded_product" where
  "include_relations st p =
     \<lparr>row = p,
      productType = find (\<lambda>t. pt_id t = productTypeId p) (productTypes st),
      sku = (case skuId p of None \<Rightarrow> None | Some i \<Rightarrow> find (\<lambda>k. sku_id k = i) (skus st))\<rparr>"

definition mapToShopifyProduct :: "loaded_product \<Rightarrow> shopify_payload" where
  "mapToShopifyProduct product =
     \<lparr>sp_title = name (row product),
      sp_body_html = or_else (description (row product)) [],
      sp_vendor = ''Default Vendor'',
      sp_product_type = or_else (map_option pt_name (productType product)) ''Default'',
      sp_barcode = or_else (barcode (row product)) [],
      sp_published = True,
      sp_variants = [\<lparr>pv_price = price (row product),
                      pv_sku = or_else (map_option sku_code (sku product)) [],
                      pv_inventory_quantity = stockCount (row product),
                      pv_inventory_management = ''shopify''\<rparr>],
      sp_images = (if truthy (imageUrl (row product)) then [or_else (imageUrl (row product)) []] else [])\<rparr>"

text \<open>
  \<open>syncProductToShopify\<close>. The result is the returned boolean; every exception (a
  rejected remote call, a failed store update) is caught and gives \<open>false\<close>.
\<close>

definition syncProductToShopify :: "'r platform \<Rightarrow> loaded_product \<Rightarrow> 'r world \<Rightarrow> bool \<times> 'r world" where
  "syncProductToShopify sh product w =
     (case getShopifyClient (db w) of
        None \<Rightarrow> (False, w)
      | Some shopify \<Rightarrow>
          (let ids = (case externalIds (row product) of None \<Rightarrow> [] | Some e \<Rightarrow> e);
               shopifyProductId = map_of ids ''shopify'';
               shopifyProduct = mapToShopifyProduct product
           in if truthy shopifyProductId
              then (case remote_call (ProductUpdate (parseInt (or_else shopifyProductId [])) shopifyProduct)
                           (shopify_product_update sh (parseInt (or_else shopifyProductId [])) shopifyProduct) w of
                      (None, w') \<Rightarrow> (False, w')
                    | (Some r, w') \<Rightarrow> (True, w'))
              else (case remote_call (ProductCreate shopifyProduct)
                           (shopify_product_create sh shopifyProduct) w of
                      (None, w') \<Rightarrow> (False, w')
                    | (Some newProduct, w') \<Rightarrow>
                        if rp_id newProduct \<noteq> 0
                        then (case prisma_product_update (product_id (row product))
                                     (no_data\<lparr>d_externalIds :=
                                        Some (AList.update ''shopify'' (toString (rp_id newProduct)) ids)\<rparr>)
                                     (db w') of
                                Inl err \<Rightarrow> (False, w')
                              | Inr (updated, st') \<Rightarrow> (True, w'\<lparr>db := st'\<rparr>))
                        else (True, w'))))"

text \<open>\<open>syncInventoryToShopify\<close>.\<close>

definition syncInventoryToShopify :: "'r platform \<Rightarrow> oid \<Rightarrow> int \<Rightarrow> 'r world \<Rightarrow> bool \<times> 'r world" where
  "syncInventoryToShopify sh productId qty w =
     (case getShopifyClient (db w) of
        None \<Rightarrow> (False, w)
      | Some shopify \<Rightarrow>
          (case prisma_product_findUnique productId (db w) of
             None \<Rightarrow> (False, w)
           | Some product \<Rightarrow>
               (let shopifyProductId =
                      (case externalIds product of None \<Rightarrow> None | Some e \<Rightarrow> map_of e ''shopify'')
                in if \<not> truthy shopifyProductId then (False, w)
                   else (case remote_call (ProductGet (parseInt (or_else shopifyProductId [])))
                                (shopify_product_get sh (parseInt (or_else shopifyProductId []))) w of
                           (None, w1) \<Rightarrow> (False, w1)
                         | (Some shopifyProduct, w1) \<Rightarrow>
                             (case rp_variants shopifyProduct of
                                [] \<Rightarrow> (False, w1)
                              | v # vs \<Rightarrow>
                                  (let inventoryItemId = rv_inventory_item_id v
                                   in case remote_call (InventoryLevelList inventoryItemId)
                                             (shopify_inventoryLevel_list sh inventoryItemId) w1 of
                                        (None, w2) \<Rightarrow> (False, w2)
                                      | (Some inventoryLevels, w2) \<Rightarrow>
                                          (case inventoryLevels of
                                             [] \<Rightarrow> (False, w2)
                                           | l # ls \<Rightarrow>
                                               (case remote_call
                                                       (InventoryLevelSet inventoryItemId (il_location_id l) qty)
                                                       (shopify_inventoryLevel_set sh inventoryItemId
                                                          (il_location_id l) qty) w2 of
                                                  (None, w3) \<Rightarrow> (False, w3)
                                                | (Some r, w3) \<Rightarrow> (True, w3)))))))))"

section \<open>Bulk import\<close>

datatype outcome = Imported | Updated | Failed

record import_result =
  success :: bool
  total :: nat
  imported :: nat
  failed :: nat
  updated :: nat

text \<open>The scan over \<open>findMany\<close> for the product linked to the remote id.\<close>

definition existingProduct :: "string \<Rightarrow> store \<Rightarrow> product option" where
  "existingProduct shopifyId st =
     find (\<lambda>product. case externalIds product of
                        None \<Rightarrow> False
                      | Some exIds \<Rightarrow> map_of exIds ''shopify'' = Some shopifyId)
          (prisma_product_findMany st)"

text \<open>Get or create the product type; the result is its id.\<close>

definition productTypeId_for :: "remote_product \<Rightarrow> store \<Rightarrow> oid \<times> store" where
  "productTypeId_for shopifyProduct st =
     (let n = or_else (rp_product_type shopifyProduct) ''General''
      in case prisma_productType_findFirst n st of
           Some foundType \<Rightarrow> (pt_id foundType, st)
         | None \<Rightarrow>
             (case prisma_productType_create n (Some (''Imported from Shopify: '' @ n)) st of
                (newProductType, st') \<Rightarrow> (pt_id newProductType, st')))"

text \<open>
  The stock of the first variant's inventory item; 0 when there is no item, no level, no
  available quantity, or when the lookup fails.
\<close>

definition stockCount_for :: "'r platform \<Rightarrow> remote_product \<Rightarrow> 'r world \<Rightarrow> int \<times> 'r world" where
  "stockCount_for sh shopifyProduct w =
     (case rp_variants shopifyProduct of
        [] \<Rightarrow> (0, w)
      | v # vs \<Rightarrow>
          (let inventoryItemId = rv_inventory_item_id v
           in if inventoryItemId = 0 then (0, w)
              else (case remote_call (InventoryLevelList inventoryItemId)
                           (shopify_inventoryLevel_list sh inventoryItemId) w of
                      (None, w') \<Rightarrow> (0, w')
                    | (Some inventoryLevels, w') \<Rightarrow>
                        (case inventoryLevels of
                           [] \<Rightarrow> (0, w')
                         | l # ls \<Rightarrow> ((case il_available l of None \<Rightarrow> 0 | Some a \<Rightarrow> a), w')))))"

text \<open>\<open>shopifyProduct.variants[0]?.barcode || null\<close> and \<open>variants[0]?.price || '0'\<close>.\<close>

definition first_barcode :: "remote_product \<Rightarrow> string option" where
  "first_barcode shopifyProduct =
     (case rp_variants shopifyProduct of [] \<Rightarrow> None | v # vs \<Rightarrow> or_null (rv_barcode v))"

definition first_price :: "remote_product \<Rightarrow> string" where
  "first_price shopifyProduct =
     (case rp_variants shopifyProduct of [] \<Rightarrow> ''0'' | v # vs \<Rightarrow> or_else (rv_price v) ''0'')"

text \<open>The barcode of a product that is about to be created.\<close>

definition uniqueBarcode :: "string option \<Rightarrow> string \<Rightarrow> store \<Rightarrow> string option" where
  "uniqueBarcode remoteBarcode shopifyId st =
     (case remoteBarcode of
        Some b \<Rightarrow>
          (case prisma_product_findUnique_barcode b st of
             Some existing \<Rightarrow> Some (b @ ''-'' @ shopifyId)
           | None \<Rightarrow> Some b)
      | None \<Rightarrow> Some (''shopify-'' @ shopifyId))"

text \<open>
  The body of the loop of \<open>importProductsFromShopify\<close> for one remote product.
  \<open>parseFloat\<close> is a parameter. An exception of the store in the update or the create is
  caught by the loop's \<open>catch\<close> and counts the product as failed; what was written before
  it (a new product type) stays.
\<close>

definition import_one ::
  "(string \<Rightarrow> real) \<Rightarrow> 'r platform \<Rightarrow> remote_product \<Rightarrow> 'r world \<Rightarrow> outcome \<times> 'r world" where
  "import_one parseFloat sh shopifyProduct w =
     (let shopifyId = toString (rp_id shopifyProduct);
          existing = existingProduct shopifyId (db w)
      in case productTypeId_for shopifyProduct (db w) of
           (productTypeId', st1) \<Rightarrow>
             (case stockCount_for sh shopifyProduct (w\<lparr>db := st1\<rparr>) of
                (stockCount', w2) \<Rightarrow>
                  (case existing of
                     Some e \<Rightarrow>
                       (case prisma_product_update (product_id e)
                               \<lparr>d_name = Some (rp_title shopifyProduct),
                                d_description = Some (rp_body_html shopifyProduct),
                                d_price = Some (parseFloat (first_price shopifyProduct)),
                                d_stockCount = Some stockCount',
                                d_barcode = Some (first_barcode shopifyProduct),
                                d_externalIds = Some [(''shopify'', shopifyId)]\<rparr> (db w2) of
                          Inl err \<Rightarrow> (Failed, w2)
                        | Inr (u, st3) \<Rightarrow> (Updated, w2\<lparr>db := st3\<rparr>))
                   | None \<Rightarrow>
                       (case prisma_product_create
                               \<lparr>product_id = 0,
                                name = rp_title shopifyProduct,
                                description = rp_body_html shopifyProduct,
                                barcode = uniqueBarcode (first_barcode shopifyProduct) shopifyId (db w2),
                                imageUrl = or_null (rp_image_src shopifyProduct),
                                price = parseFloat (first_price shopifyProduct),
                                stockCount = stockCount',
                                productTypeId = productTypeId',
                                skuId = None,
                                externalIds = Some [(''shopify'', shopifyId)]\<rparr> (db w2) of
                          Inl err \<Rightarrow> (Failed, w2)
                        | Inr (c, st3) \<Rightarrow> (Imported, w2\<lparr>db := st3\<rparr>)))))"

text \<open>The loop: the three counters and the world are threaded through the products in order.\<close>

fun import_loop ::
  "(string \<Rightarrow> real) \<Rightarrow> 'r platform \<Rightarrow> remote_product list \<Rightarrow> nat \<times> nat \<times> nat \<Rightarrow> 'r world \<Rightarrow>
   (nat \<times> nat \<times> nat) \<times> 'r world" where
  "import_loop parseFloat sh [] cnt w = (cnt, w)"
| "import_loop parseFloat sh (shopifyProduct # rest) (imp, fl, upd) w =
     (case import_one parseFloat sh shopifyProduct w of
        (Imported, w') \<Rightarrow> import_loop parseFloat sh rest (imp + 1, fl, upd) w'
      | (Updated, w') \<Rightarrow> import_loop parseFloat sh rest (imp, fl, upd + 1) w'
      | (Failed, w') \<Rightarrow> import_loop parseFloat sh rest (imp, fl + 1, upd) w')"

definition import_failure :: import_result where
  "import_failure = \<lparr>success = False, total = 0, imported = 0, failed = 0, updated = 0\<rparr>"

definition importProductsFromShopify ::
  "(string \<Rightarrow> real) \<Rightarrow> 'r platform \<Rightarrow> 'r world \<Rightarrow> import_result \<times> 'r world" where
  "importProductsFromShopify parseFloat sh w =
     (case getShopifyClient (db w) of
        None \<Rightarrow> (import_failure, w)
      | Some shopify \<Rightarrow>
          (case remote_call (ProductList 50) (shopify_product_list sh 50) w of
             (None, w') \<Rightarrow> (import_failure, w')
           | (Some shopifyProducts, w') \<Rightarrow>
               (case import_loop parseFloat sh shopifyProducts (0, 0, 0) w' of
                  ((imp, fl, upd), w'') \<Rightarrow>
                    (\<lparr>success = True, total = length shopifyProducts,
                      imported = imp, failed = fl, updated = upd\<rparr>, w''))))"

section \<open>Sales route\<close>

record sale_request =
  session :: bool
  req_productId :: "oid option"
  req_quantity :: "int option"

text \<open>
  The transaction of the route's \<open>POST\<close>: it commits the sale and the new stock together,
  or throws with a message and writes nothing.
\<close>

definition sale_transaction :: "oid \<Rightarrow> int \<Rightarrow> store \<Rightarrow> string + ((sale \<times> loaded_product) \<times> store)" where
  "sale_transaction productId qty st =
     (case prisma_product_findUnique productId st of
        None \<Rightarrow> Inl ''Product not found''
      | Some product \<Rightarrow>
          if stockCount product < qty then Inl ''Not enough stock available''
          else (case prisma_sale_create productId qty (price product * real_of_int qty) st of
                  (sale, st1) \<Rightarrow>
                    (case prisma_product_update productId
                            (no_data\<lparr>d_stockCount := Some (stockCount product - qty)\<rparr>) st1 of
                       Inl err \<Rightarrow> Inl ''Record to update not found''
                     | Inr (updatedProduct, st2) \<Rightarrow>
                         Inr ((sale, include_relations st2 updatedProduct), st2))))"

definition POST_sale :: "'r platform \<Rightarrow> sale_request \<Rightarrow> 'r world \<Rightarrow> response \<times> 'r world" where
  "POST_sale sh req w =
     (if \<not> session req then (\<lparr>status = 401, json = ErrorBody ''Unauthorized''\<rparr>, w)
      else (case (req_productId req, req_quantity req) of
              (Some productId, Some qty) \<Rightarrow>
                if qty = 0 \<or> qty < 1
                then (\<lparr>status = 400, json = ErrorBody
                        ''Product ID and quantity are required. Quantity must be at least 1.''\<rparr>, w)
                else (case sale_transaction productId qty (db w) of
                        Inl msg \<Rightarrow>
                          (\<lparr>status = (if msg = ''Not enough stock available'' then 400 else 500),
                            json = ErrorBody msg\<rparr>, w)
                      | Inr ((sale, updatedProduct), st') \<Rightarrow>
                          (\<lparr>status = 201, json = SaleBody sale\<rparr>,
                           (case getShopifySettings st' of
                              None \<Rightarrow> w\<lparr>db := st'\<rparr>
                            | Some shopifySettings \<Rightarrow>
                                if isEnabled shopifySettings
                                then snd (syncProductToShopify sh updatedProduct (w\<lparr>db := st'\<rparr>))
                                else w\<lparr>db := st'\<rparr>)))
            | _ \<Rightarrow> (\<lparr>status = 400, json = ErrorBody
                        ''Product ID and quantity are required. Quantity must be at least 1.''\<rparr>, w)))"

section \<open>An example installation\<close>

text \<open>
  A small platform that behaves well, and a store, used to instantiate the theorems below.
  The platform keeps a catalog and a table of inventory levels by inventory item; it
  numbers new products from a counter and pages \<open>list\<close> by the limit.
\<close>

record shop_state =
  catalog :: "remote_product list"
  levels :: "(nat \<times> inventory_level) list"
  next_remote_id :: nat

definition example_platform :: "shop_state platform" where
  "example_platform =
     \<lparr>shopify_product_create = (\<lambda>payload r.
        (let np = \<lparr>rp_id = next_remote_id r, rp_title = sp_title payload,
                    rp_body_html = Some (sp_body_html payload),
                    rp_product_type = Some (sp_product_type payload),
                    rp_variants = [\<lparr>rv_price = None, rv_barcode = Some (sp_barcode payload),
                                    rv_inventory_item_id = next_remote_id r\<rparr>],
                    rp_image_src = None\<rparr>
         in (Some np, r\<lparr>catalog := catalog r @ [np], next_remote_id := Suc (next_remote_id r)\<rparr>))),
      shopify_product_update = (\<lambda>i payload r.
        (case find (\<lambda>p. Some (int (rp_id p)) = i) (catalog r) of
           None \<Rightarrow> (None, r)
         | Some p \<Rightarrow>
             (Some (p\<lparr>rp_title := sp_title payload\<rparr>),
              r\<lparr>catalog := map (\<lambda>q. if rp_id q = rp_id p then q\<lparr>rp_title := sp_title payload\<rparr> else q)
                               (catalog r)\<rparr>))),
      shopify_product_get = (\<lambda>i r. (find (\<lambda>p. Some (int (rp_id p)) = i) (catalog r), r)),
      shopify_product_list = (\<lambda>lim r. (Some (take lim (catalog r)), r)),
      shopify_inventoryLevel_list = (\<lambda>item r.
        (Some (map snd (filter (\<lambda>e. fst e = item) (levels r))), r)),
      shopify_inventoryLevel_set = (\<lambda>item loc n r.
        (Some \<lparr>il_location_id = loc, il_available = Some n\<rparr>,
         r\<lparr>levels := map (\<lambda>e. if fst e = item \<and> il_location_id (snd e) = loc
                                then (item, \<lparr>il_location_id = loc, il_available = Some n\<rparr>) else e)
                          (levels r)\<rparr>))\<rparr>"

definition example_settings :: integration_settings where
  "example_settings =
     \<lparr>integrationType = ''shopify'', isEnabled = True,
      settings = [(''shopName'', ''demo-shop''), (''accessToken'', ''token''),
                  (''apiSecret'', ''secret'')]\<rparr>"

definition linked_product :: product where
  "linked_product =
     \<lparr>product_id = 1, name = ''Mug'', description = Some ''A mug'', barcode = Some ''B'',
      imageUrl = None, price = 5, stockCount = 10, productTypeId = 7, skuId = None,
      externalIds = Some [(''woocommerce'', ''17''), (''shopify'', ''900'')]\<rparr>"

definition unlinked_product :: product where
  "unlinked_product =
     \<lparr>product_id = 2, name = ''Cup'', description = None, barcode = Some ''C'',
      imageUrl = None, price = 3, stockCount = 4, productTypeId = 7, skuId = None,
      externalIds = Some [(''woocommerce'', ''18'')]\<rparr>"

definition example_store :: store where
  "example_store =
     \<lparr>products = [linked_product, unlinked_product],
      productTypes = [\<lparr>pt_id = 7, pt_name = ''General'', pt_description = None\<rparr>],
      skus = [], sales = [],
      integrationSettings = [example_settings],
      next_oid = 8\<rparr>"

definition remote_mug :: remote_product where
  "remote_mug =
     \<lparr>rp_id = 900, rp_title = ''Mug'', rp_body_html = Some ''A mug'', rp_product_type = Some ''General'',
      rp_variants = [\<lparr>rv_price = Some ''5'', rv_barcode = Some ''B'', rv_inventory_item_id = 40\<rparr>],
      rp_image_src = None\<rparr>"

text \<open>The same remote product with the barcode \<open>C\<close>, which the unlinked product holds.\<close>

definition remote_mug_relabelled :: remote_product where
  "remote_mug_relabelled =
     remote_mug\<lparr>rp_variants := [\<lparr>rv_price = Some ''5'', rv_barcode = Some ''C'',
                                    rv_inventory_item_id = 40\<rparr>]\<rparr>"

definition example_shop :: shop_state where
  "example_shop =
     \<lparr>catalog = [remote_mug],
      levels = [(40, \<lparr>il_location_id = 3, il_available = Some 10\<rparr>)],
      next_remote_id = 901\<rparr>"

definition example_world :: "shop_state world" where
  "example_world = \<lparr>db = example_store, shop = example_shop, calls = []\<rparr>"

text \<open>A shop whose catalog has 60 products.\<close>

definition big_shop :: shop_state where
  "big_shop = example_shop\<lparr>catalog := map (\<lambda>k. remote_mug\<lparr>rp_id := 900 + k\<rparr>) [0..<60]\<rparr>"

text \<open>
  Two stores for the import of the remote product 900, whose barcode is \<open>B\<close>: one
  where an unlinked product holds \<open>B\<close>, and one where a second product also holds
  \<open>B-900\<close>.
\<close>

definition collision_world :: "shop_state world" where
  "collision_world =
     example_world\<lparr>db := example_store\<lparr>products := [unlinked_product\<lparr>barcode := Some ''B''\<rparr>]\<rparr>\<rparr>"

definition taken_world :: "shop_state world" where
  "taken_world =
     example_world\<lparr>db := example_store\<lparr>products :=
       [unlinked_product\<lparr>barcode := Some ''B''\<rparr>,
        unlinked_product\<lparr>product_id := 3, barcode := Some ''B-900''\<rparr>]\<rparr>\<rparr>"

text \<open>Stand-ins for the digest, the JSON parser and \<open>parseFloat\<close> on the example inputs.\<close>

definition example_hmac :: "string \<Rightarrow> string \<Rightarrow> string" where
  "example_hmac secret text = secret @ ''/'' @ text"

definition example_parse :: "string \<Rightarrow> webhook_data option" where
  "example_parse text =
     (if text = ''900'' then Some \<lparr>wd_id = 900, wd_title = ''Big mug'', wd_body_html = Some ''A big mug''\<rparr>
      else if text = ''555'' then Some \<lparr>wd_id = 555, wd_title = ''Plate'', wd_body_html = None\<rparr>
      else None)"

definition example_parseFloat :: "string \<Rightarrow> real" where
  "example_parseFloat text = (if text = ''5'' then 5 else 0)"

definition signed_request :: "string \<Rightarrow> string \<Rightarrow> webhook_request" where
  "signed_request t text =
     \<lparr>hmac_header = Some (example_hmac ''secret'' text), shop_domain = Some ''demo-shop.example'',
      topic = Some t, body = text\<rparr>"


section \<open>Properties of the JavaScript helpers\<close>

lemma digit_val_digit_char: "d < 10 \<Longrightarrow> digit_val (digit_char d) = Some d"
  by (simp add: digit_val_def digit_char_def Let_def)

lemma is_digit_10_range: "is_digit 10 c \<longleftrightarrow> 48 \<le> (of_char c :: nat) \<and> (of_char c :: nat) \<le> 57"
  by (auto simp: is_digit_def digit_val_def Let_def split: option.splits if_splits)

lemma is_digit_digit_char: "d < 10 \<Longrightarrow> is_digit 10 (digit_char d)"
  by (simp add: is_digit_def digit_val_digit_char)

lemma toString_digits: "c \<in> set (toString n) \<Longrightarrow> is_digit 10 c"
proof (induction n arbitrary: c rule: toString.induct)
  case (1 n)
  show ?case
  proof (cases "n < 10")
    case True
    with "1.prems" show ?thesis
      by (simp add: toString.simps [of n] is_digit_digit_char)
  next
    case False
    with "1.prems" have "c \<in> set (toString (n div 10)) \<or> c = digit_char (n mod 10)"
      by (auto simp: toString.simps [of n])
    with False "1.IH" show ?thesis
      by (auto simp: is_digit_digit_char)
  qed
qed

lemma toString_nonempty: "toString n \<noteq> []"
  by (simp add: toString.simps [of n])

lemma digits_value_snoc:
  "digits_value r (ds @ [c]) = digits_value r ds * r + the (digit_val c)"
  by (simp add: digits_value_def)

lemma digits_value_toString: "digits_value 10 (toString n) = n"
proof (induction n rule: toString.induct)
  case (1 n)
  show ?case
  proof (cases "n < 10")
    case True
    then show ?thesis
      by (simp add: toString.simps [of n] digits_value_def digit_val_digit_char)
  next
    case False
    with "1.IH" have "digits_value 10 (toString (n div 10)) = n div 10" by simp
    with False show ?thesis
      by (simp add: toString.simps [of n] digits_value_snoc digit_val_digit_char)
  qed
qed

lemma digit_not_special:
  assumes "is_digit 10 c"
  shows "\<not> is_ws c" and "c \<noteq> CHR ''-''" and "c \<noteq> CHR ''+''" and "c \<noteq> CHR ''x''" and "c \<noteq> CHR ''X''"
  using assms by (auto simp: is_digit_10_range is_ws_def)

lemma parseInt_digits:
  assumes "s \<noteq> []" and "\<forall>c \<in> set s. is_digit 10 c"
  shows "parseInt s = Some (int (digits_value 10 s))"
proof -
  from assms obtain a r where s: "s = a # r" by (cases s) auto
  have a: "\<not> is_ws a" "a \<noteq> CHR ''-''" "a \<noteq> CHR ''+''"
    using assms(2) digit_not_special [of a] by (simp_all add: s)
  have tw: "takeWhile (is_digit 10) s = s" using assms(2) by simp
  show ?thesis
  proof (cases r)
    case Nil
    with a tw show ?thesis
      by (simp add: parseInt_def s)
  next
    case (Cons b t)
    with assms(2) have "b \<noteq> CHR ''x''" "b \<noteq> CHR ''X''"
      using digit_not_special [of b] by (simp_all add: s)
    with a tw Cons show ?thesis
      by (simp add: parseInt_def s)
  qed
qed

text \<open>A remote id survives being stored as a string and read back with \<open>parseInt\<close>.\<close>

lemma parseInt_toString: "parseInt (toString n) = Some (int n)"
  using parseInt_digits [of "toString n"] toString_digits [of _ n]
  by (simp add: toString_nonempty digits_value_toString)

lemma truthy_toString: "truthy (Some (toString n))"
  by (simp add: truthy_def toString_nonempty)

section \<open>Properties of the store\<close>

lemma find_in_set: "find P xs = Some x \<Longrightarrow> x \<in> set xs \<and> P x"
  by (induction xs) (auto split: if_splits)

lemma find_exists: "x \<in> set xs \<Longrightarrow> P x \<Longrightarrow> \<exists>y. find P xs = Some y"
  by (induction xs) auto

section \<open>Properties of the webhook route\<close>

text \<open>
  With the schema's provider the lookup of both product handlers throws, so neither ever
  reaches its update.
\<close>

lemma handleProductUpdate_no_effect: "handleProductUpdate data st = st"
  by (simp add: handleProductUpdate_def prisma_product_findFirst_externalId_def datasource_provider_def)

lemma handleProductDelete_no_effect: "handleProductDelete data st = st"
  by (simp add: handleProductDelete_def prisma_product_findFirst_externalId_def datasource_provider_def)

lemma POST_webhook_verified:
  assumes "getShopifySettings st = Some ss" and "isEnabled ss"
    and "truthy (hmac_header req)" and "truthy (shop_domain req)"
    and "map_of (settings ss) ''apiSecret'' = Some secret"
    and "hmac_header req = Some (hmac secret (body req))"
    and "parse (body req) = Some data"
  shows "POST_webhook hmac parse req st =
           (\<lparr>status = 200, json = SuccessBody\<rparr>,
            if topic req = Some ''products/update'' then handleProductUpdate data st
            else if topic req = Some ''products/delete'' then handleProductDelete data st
            else st)"
  using assms by (simp add: POST_webhook_def handleInventoryUpdate_def)

lemma POST_webhook_leaves_store: "snd (POST_webhook hmac parse req st) = st"
  by (auto simp: POST_webhook_def handleProductUpdate_no_effect handleProductDelete_no_effect
                 handleInventoryUpdate_def split: option.splits)

text \<open>Only an acknowledged notification could change the store.\<close>

lemma webhook_not_acknowledged_leaves_store:
  "status (fst (POST_webhook hmac parse req st)) \<noteq> 200 \<Longrightarrow> snd (POST_webhook hmac parse req st) = st"
  by (auto simp: POST_webhook_def split: option.splits if_splits)

text \<open>
  Claim C2. A request that reaches the signature check (integration enabled, both headers
  present, a shared secret stored) and whose \<open>x-shopify-hmac-sha256\<close> header differs
  from the digest of its raw body is answered with 401, and the store (products, settings
  and every other table) is the one the request found.
\<close>

theorem webhook_digest_mismatch_rejected:
  assumes "getShopifySettings st = Some ss" and "isEnabled ss"
    and "truthy (hmac_header req)" and "truthy (shop_domain req)"
    and "map_of (settings ss) ''apiSecret'' = Some secret"
    and "hmac_header req \<noteq> Some (hmac secret (body req))"
  shows "POST_webhook hmac parse req st =
           (\<lparr>status = 401, json = ErrorBody ''Invalid webhook signature''\<rparr>, st)"
  using assms by (auto simp: POST_webhook_def)

text \<open>
  The theorem at a forged request against the example store.
\<close>

theorem webhook_digest_mismatch_rejected_witness:
  "getShopifySettings example_store = Some example_settings \<and> isEnabled example_settings
   \<and> map_of (settings example_settings) ''apiSecret'' = Some ''secret''
   \<and> hmac_header ((signed_request ''products/delete'' ''900'')\<lparr>hmac_header := Some ''forged''\<rparr>)
       \<noteq> Some (example_hmac ''secret'' ''900'')
   \<and> POST_webhook example_hmac example_parse
        ((signed_request ''products/delete'' ''900'')\<lparr>hmac_header := Some ''forged''\<rparr>) example_store
      = (\<lparr>status = 401, json = ErrorBody ''Invalid webhook signature''\<rparr>, example_store)
   \<and> prisma_product_findUnique 1 example_store = Some linked_product"
proof -
  let ?req = "(signed_request ''products/delete'' ''900'')\<lparr>hmac_header := Some ''forged''\<rparr>"
  have h1: "getShopifySettings example_store = Some example_settings" by code_simp
  have h2: "isEnabled example_settings" by code_simp
  have h3: "truthy (hmac_header ?req)" by code_simp
  have h4: "truthy (shop_domain ?req)" by code_simp
  have h5: "map_of (settings example_settings) ''apiSecret'' = Some ''secret''" by code_simp
  have h6: "hmac_header ?req \<noteq> Some (example_hmac ''secret'' (body ?req))" by code_simp
  have h7: "prisma_product_findUnique 1 example_store = Some linked_product" by code_simp
  have h8: "body ?req = ''900''" by code_simp
  from webhook_digest_mismatch_rejected [where hmac = example_hmac and parse = example_parse, OF h1 h2 h3 h4 h5 h6]
    h1 h2 h5 h6 h7 h8
  show ?thesis by simp
qed


text \<open>
  Claim C8, as the code has it. A request rejected for a missing header and a request
  rejected for a digest mismatch both get status 401, but the bodies differ: the first
  carries the error \<open>Invalid webhook request\<close>, the second \<open>Invalid webhook signature\<close>.
\<close>

theorem webhook_rejections_share_status_not_body:
  assumes "getShopifySettings st = Some ss" and "isEnabled ss"
    and "\<not> truthy (hmac_header req1) \<or> \<not> truthy (shop_domain req1)"
    and "truthy (hmac_header req2)" and "truthy (shop_domain req2)"
    and "map_of (settings ss) ''apiSecret'' = Some secret"
    and "hmac_header req2 \<noteq> Some (hmac secret (body req2))"
  shows "fst (POST_webhook hmac parse req1 st) = \<lparr>status = 401, json = ErrorBody ''Invalid webhook request''\<rparr>
       \<and> fst (POST_webhook hmac parse req2 st) = \<lparr>status = 401, json = ErrorBody ''Invalid webhook signature''\<rparr>
       \<and> status (fst (POST_webhook hmac parse req1 st)) = status (fst (POST_webhook hmac parse req2 st))
       \<and> json (fst (POST_webhook hmac parse req1 st)) \<noteq> json (fst (POST_webhook hmac parse req2 st))"
  using assms by (auto simp: POST_webhook_def)

text \<open>
  The two rejections on the example store.
\<close>

theorem webhook_rejections_share_status_not_body_witness:
  "fst (POST_webhook example_hmac example_parse
          ((signed_request ''products/delete'' ''900'')\<lparr>hmac_header := None\<rparr>) example_store)
     = \<lparr>status = 401, json = ErrorBody ''Invalid webhook request''\<rparr>
   \<and> fst (POST_webhook example_hmac example_parse
          ((signed_request ''products/delete'' ''900'')\<lparr>hmac_header := Some ''forged''\<rparr>) example_store)
     = \<lparr>status = 401, json = ErrorBody ''Invalid webhook signature''\<rparr>"
proof -
  let ?req1 = "(signed_request ''products/delete'' ''900'')\<lparr>hmac_header := None\<rparr>"
  let ?req2 = "(signed_request ''products/delete'' ''900'')\<lparr>hmac_header := Some ''forged''\<rparr>"
  have h1: "getShopifySettings example_store = Some example_settings" by code_simp
  have h2: "isEnabled example_settings" by code_simp
  have h3: "\<not> truthy (hmac_header ?req1) \<or> \<not> truthy (shop_domain ?req1)" by code_simp
  have h4: "truthy (hmac_header ?req2)" by code_simp
  have h5: "truthy (shop_domain ?req2)" by code_simp
  have h6: "map_of (settings example_settings) ''apiSecret'' = Some ''secret''" by code_simp
  have h7: "hmac_header ?req2 \<noteq> Some (example_hmac ''secret'' (body ?req2))" by code_simp
  from webhook_rejections_share_status_not_body
         [where hmac = example_hmac and parse = example_parse, OF h1 h2 h3 h4 h5 h6 h7]
  show ?thesis by simp
qed

text \<open>
  Claim C8 as stated fails: on the example store the response to a request without the
  digest header and the response to a request with a forged digest are not equal.
\<close>

theorem webhook_rejections_distinguishable:
  "\<not> (fst (POST_webhook example_hmac example_parse
              ((signed_request ''products/delete'' ''900'')\<lparr>hmac_header := None\<rparr>) example_store)
        = fst (POST_webhook example_hmac example_parse
              ((signed_request ''products/delete'' ''900'')\<lparr>hmac_header := Some ''forged''\<rparr>) example_store))"
  by code_simp

text \<open>
  Claim C6 at a linked product. The example store has a product that records the remote id
  900 under \<open>shopify\<close>, named \<open>Mug\<close>. A verified \<open>products/update\<close> notification
  for 900 with the title \<open>Big mug\<close> is acknowledged with 200, but the lookup by remote id
  throws, the handler's \<open>catch\<close> swallows the exception, and name and description are
  not overwritten: the store is as it was.
\<close>

theorem product_update_webhook_not_applied:
  "has_externalId ''shopify'' (toString 900) linked_product
   \<and> example_parse (body (signed_request ''products/update'' ''900''))
       = Some \<lparr>wd_id = 900, wd_title = ''Big mug'', wd_body_html = Some ''A big mug''\<rparr>
   \<and> POST_webhook example_hmac example_parse (signed_request ''products/update'' ''900'') example_store
       = (\<lparr>status = 200, json = SuccessBody\<rparr>, example_store)
   \<and> map_option name (prisma_product_findUnique 1 example_store) = Some ''Mug''"
  by code_simp

text \<open>The store after that notification, read off the theorem.\<close>

theorem product_update_webhook_not_applied_witness:
  "snd (POST_webhook example_hmac example_parse (signed_request ''products/update'' ''900'') example_store)
     = example_store"
  using product_update_webhook_not_applied by simp

text \<open>
  Claim C7 at a linked product. A verified \<open>products/delete\<close> notification for the
  remote id 900 is acknowledged with 200, but the lookup by remote id throws, the handler's
  \<open>catch\<close> swallows the exception, and the product keeps its \<open>externalIds\<close>: it is
  not unlinked.
\<close>

theorem product_delete_webhook_not_applied:
  "has_externalId ''shopify'' (toString 900) linked_product
   \<and> POST_webhook example_hmac example_parse (signed_request ''products/delete'' ''900'') example_store
       = (\<lparr>status = 200, json = SuccessBody\<rparr>, example_store)
   \<and> map_option externalIds (prisma_product_findUnique 1 example_store)
       = Some (Some [(''woocommerce'', ''17''), (''shopify'', ''900'')])"
  by code_simp

text \<open>The store after that notification, read off the theorem.\<close>

theorem product_delete_webhook_not_applied_witness:
  "snd (POST_webhook example_hmac example_parse (signed_request ''products/delete'' ''900'') example_store)
     = example_store"
  using product_delete_webhook_not_applied by simp

section \<open>Properties of the sync engine\<close>

lemma find_key_map:
  assumes "\<And>q. f (g q) = f q"
  shows "find (\<lambda>q. f q = i) (map (\<lambda>q. if f q = i then g q else q) xs) = map_option g (find (\<lambda>q. f q = i) xs)"
  using assms by (induction xs) auto

lemma product_id_apply_data [simp]: "product_id (apply_data d q) = product_id q"
  by (simp add: apply_data_def)

lemma prisma_product_update_Inr:
  assumes "prisma_product_update i d st = Inr (u, st')"
  shows "\<exists>p0. prisma_product_findUnique i st = Some p0 \<and> u = apply_data d p0
          \<and> st' = st\<lparr>products := map (\<lambda>q. if product_id q = i then apply_data d q else q) (products st)\<rparr>
          \<and> prisma_product_findUnique i st' = Some (apply_data d p0)"
proof -
  from assms obtain p0 where p0: "prisma_product_findUnique i st = Some p0"
    by (auto simp: prisma_product_update_def split: option.splits)
  with assms have u: "u = apply_data d p0"
    and st': "st' = st\<lparr>products := map (\<lambda>q. if product_id q = i then apply_data d q else q) (products st)\<rparr>"
    by (auto simp: prisma_product_update_def split: option.splits if_splits)
  have "prisma_product_findUnique i st' = Some (apply_data d p0)"
    using p0 find_key_map [of product_id "apply_data d" i "products st"]
    by (simp add: prisma_product_findUnique_def st')
  with p0 u st' show ?thesis by simp
qed

lemma getShopifyClient_cong:
  "integrationSettings st' = integrationSettings st \<Longrightarrow> getShopifyClient st' = getShopifyClient st"
  by (simp add: getShopifyClient_def getShopifySettings_def prisma_integrationSettings_findUnique_def)

lemma getShopifyClient_enabled:
  "getShopifyClient st = Some c \<Longrightarrow> \<exists>ss. getShopifySettings st = Some ss \<and> isEnabled ss"
  by (auto simp: getShopifyClient_def split: option.splits if_splits)

lemma syncProductToShopify_linked:
  assumes "getShopifyClient (db w) = Some c"
    and "(case externalIds (row lp) of None \<Rightarrow> None | Some e \<Rightarrow> map_of e ''shopify'') = Some sid"
    and "sid \<noteq> []"
  shows "\<exists>ok r'. syncProductToShopify sh lp w =
           (ok, w\<lparr>shop := r', calls := calls w @ [ProductUpdate (parseInt sid) (mapToShopifyProduct lp)]\<rparr>)"
proof -
  obtain res r' where "shopify_product_update sh (parseInt sid) (mapToShopifyProduct lp) (shop w) = (res, r')"
    by (cases "shopify_product_update sh (parseInt sid) (mapToShopifyProduct lp) (shop w)")
  with assms show ?thesis
    by (cases res)
       (auto simp: syncProductToShopify_def remote_call_def truthy_def or_else_def Let_def
             split: option.splits)
qed

text \<open>
  Claim C1. Let the product passed to single-product sync have no \<open>shopify\<close> entry in
  its \<open>externalIds\<close>, let the call return \<open>true\<close>, and let the platform answer a
  create with a product that carries an id (the client's contract; an answer without one
  is skipped by the guard \<open>if (newProduct?.id)\<close>). Then the call issued exactly one remote
  call, the create; the stored product now records the new remote id under \<open>shopify\<close>,
  next to the entries it had; and a second call on the product as it is now stored issues
  exactly one remote call, an update against that id, whatever the platform answers. No
  second create is issued.
\<close>

theorem single_product_sync_links_once:
  assumes unlinked: "(case externalIds (row lp) of None \<Rightarrow> None | Some e \<Rightarrow> map_of e ''shopify'') = None"
    and first: "syncProductToShopify sh lp w = (True, w1)"
    and contract: "case fst (shopify_product_create sh (mapToShopifyProduct lp) (shop w)) of
                     None \<Rightarrow> True | Some np \<Rightarrow> rp_id np \<noteq> 0"
  shows "\<exists>np p1.
           fst (shopify_product_create sh (mapToShopifyProduct lp) (shop w)) = Some np
         \<and> calls w1 = calls w @ [ProductCreate (mapToShopifyProduct lp)]
         \<and> prisma_product_findUnique (product_id (row lp)) (db w1) = Some p1
         \<and> externalIds p1 = Some (AList.update ''shopify'' (toString (rp_id np))
                                    (case externalIds (row lp) of None \<Rightarrow> [] | Some e \<Rightarrow> e))
         \<and> (\<forall>lp2. row lp2 = p1 \<longrightarrow>
               (\<exists>ok r2. syncProductToShopify sh lp2 w1 =
                  (ok, w1\<lparr>shop := r2,
                          calls := calls w1 @ [ProductUpdate (Some (int (rp_id np))) (mapToShopifyProduct lp2)]\<rparr>)))"
proof -
  let ?ids = "case externalIds (row lp) of None \<Rightarrow> [] | Some e \<Rightarrow> e"
  let ?payload = "mapToShopifyProduct lp"
  from unlinked have nolink: "map_of ?ids ''shopify'' = None"
    by (auto split: option.splits)
  from first obtain c where client: "getShopifyClient (db w) = Some c"
    by (auto simp: syncProductToShopify_def split: option.splits)
  obtain res r1 where create: "shopify_product_create sh ?payload (shop w) = (res, r1)"
    by (cases "shopify_product_create sh ?payload (shop w)")
  let ?w' = "w\<lparr>shop := r1, calls := calls w @ [ProductCreate ?payload]\<rparr>"
  from first client nolink create obtain np where np: "res = Some np"
    by (cases res) (auto simp: syncProductToShopify_def remote_call_def truthy_def Let_def)
  with contract create have id: "rp_id np \<noteq> 0" by simp
  let ?d = "no_data\<lparr>d_externalIds := Some (AList.update ''shopify'' (toString (rp_id np)) ?ids)\<rparr>"
  from first client nolink create np id
  obtain u st' where upd: "prisma_product_update (product_id (row lp)) ?d (db w) = Inr (u, st')"
    and w1: "w1 = ?w'\<lparr>db := st'\<rparr>"
    by (auto simp: syncProductToShopify_def remote_call_def truthy_def Let_def split: sum.splits)
  from prisma_product_update_Inr [OF upd] obtain p0
    where st': "st' = (db w)\<lparr>products := map (\<lambda>q. if product_id q = product_id (row lp)
                                                   then apply_data ?d q else q) (products (db w))\<rparr>"
      and found: "prisma_product_findUnique (product_id (row lp)) st' = Some (apply_data ?d p0)"
    by blast
  let ?p1 = "apply_data ?d p0"
  have ext: "externalIds ?p1 = Some (AList.update ''shopify'' (toString (rp_id np)) ?ids)"
    by (simp add: apply_data_def no_data_def)
  have client1: "getShopifyClient (db w1) = Some c"
    using client getShopifyClient_cong [of st' "db w"] by (simp add: w1 st')
  have second: "\<exists>ok r2. syncProductToShopify sh lp2 w1 =
                  (ok, w1\<lparr>shop := r2,
                          calls := calls w1 @ [ProductUpdate (Some (int (rp_id np))) (mapToShopifyProduct lp2)]\<rparr>)"
    if "row lp2 = ?p1" for lp2
  proof -
    have "(case externalIds (row lp2) of None \<Rightarrow> None | Some e \<Rightarrow> map_of e ''shopify'')
            = Some (toString (rp_id np))"
      by (simp add: that ext update_conv')
    from syncProductToShopify_linked [OF client1 this toString_nonempty, of sh]
    show ?thesis by (simp add: parseInt_toString)
  qed
  from create np w1 found ext second show ?thesis
    by auto
qed


text \<open>
  The theorem on the example installation: the unlinked product is created remotely as
  901 and the second call updates 901.
\<close>

theorem single_product_sync_links_once_witness:
  "calls (snd (syncProductToShopify example_platform
                 (include_relations example_store unlinked_product) example_world))
     = [ProductCreate (mapToShopifyProduct (include_relations example_store unlinked_product))]
   \<and> prisma_product_findUnique 2
        (db (snd (syncProductToShopify example_platform
                    (include_relations example_store unlinked_product) example_world)))
     = Some (unlinked_product\<lparr>externalIds := Some [(''woocommerce'', ''18''), (''shopify'', ''901'')]\<rparr>)
   \<and> calls (snd (syncProductToShopify example_platform
                 (include_relations example_store
                    (unlinked_product\<lparr>externalIds := Some [(''woocommerce'', ''18''), (''shopify'', ''901'')]\<rparr>))
                 (snd (syncProductToShopify example_platform
                         (include_relations example_store unlinked_product) example_world))))
     = [ProductCreate (mapToShopifyProduct (include_relations example_store unlinked_product)),
        ProductUpdate (Some 901)
          (mapToShopifyProduct
             (include_relations example_store
                (unlinked_product\<lparr>externalIds := Some [(''woocommerce'', ''18''), (''shopify'', ''901'')]\<rparr>)))]"
proof -
  let ?lp = "include_relations example_store unlinked_product"
  let ?w1 = "snd (syncProductToShopify example_platform ?lp example_world)"
  let ?p1 = "unlinked_product\<lparr>externalIds := Some [(''woocommerce'', ''18''), (''shopify'', ''901'')]\<rparr>"
  have h1: "(case externalIds (row ?lp) of None \<Rightarrow> None | Some e \<Rightarrow> map_of e ''shopify'') = None"
    by code_simp
  have "fst (syncProductToShopify example_platform ?lp example_world) = True"
    by code_simp
  then have h2: "syncProductToShopify example_platform ?lp example_world = (True, ?w1)"
    by (simp add: prod_eq_iff)
  have h3: "case fst (shopify_product_create example_platform (mapToShopifyProduct ?lp) (shop example_world)) of
              None \<Rightarrow> True | Some np \<Rightarrow> rp_id np \<noteq> 0"
    by code_simp
  have id: "map_option rp_id (fst (shopify_product_create example_platform (mapToShopifyProduct ?lp)
              (shop example_world))) = Some 901"
    by code_simp
  have c0: "calls example_world = []" by (simp add: example_world_def)
  have i2: "product_id (row ?lp) = 2"
    by (simp add: include_relations_def unlinked_product_def)
  have stored: "prisma_product_findUnique 2 (db ?w1) = Some ?p1"
    by code_simp
  from single_product_sync_links_once [OF h1 h2 h3] obtain np p1 where
    a: "fst (shopify_product_create example_platform (mapToShopifyProduct ?lp) (shop example_world)) = Some np"
    and b: "calls ?w1 = calls example_world @ [ProductCreate (mapToShopifyProduct ?lp)]"
    and c: "prisma_product_findUnique (product_id (row ?lp)) (db ?w1) = Some p1"
    and e: "\<forall>lp2. row lp2 = p1 \<longrightarrow>
               (\<exists>ok r2. syncProductToShopify example_platform lp2 ?w1 =
                  (ok, ?w1\<lparr>shop := r2,
                          calls := calls ?w1 @ [ProductUpdate (Some (int (rp_id np))) (mapToShopifyProduct lp2)]\<rparr>))"
    by blast
  from a id have n: "rp_id np = 901" by simp
  from c stored have p1: "p1 = ?p1" by (simp add: i2)
  have r: "row (include_relations example_store ?p1) = p1" by (simp add: include_relations_def p1)
  from e r obtain ok r2 where
    "syncProductToShopify example_platform (include_relations example_store ?p1) ?w1 =
          (ok, ?w1\<lparr>shop := r2,
                  calls := calls ?w1 @ [ProductUpdate (Some (int (rp_id np)))
                                           (mapToShopifyProduct (include_relations example_store ?p1))]\<rparr>)"
    by blast
  then have "calls (snd (syncProductToShopify example_platform (include_relations example_store ?p1) ?w1))
               = calls ?w1 @ [ProductUpdate (Some 901) (mapToShopifyProduct (include_relations example_store ?p1))]"
    by (simp add: n)
  with b stored show ?thesis
    by (simp add: c0)
qed

lemma sale_transaction_ok:
  assumes "prisma_product_findUnique i st = Some p" and "qty \<le> stockCount p"
  shows "\<exists>s st2. sale_transaction i qty st =
            Inr ((s, include_relations st2 (p\<lparr>stockCount := stockCount p - qty\<rparr>)), st2)
          \<and> integrationSettings st2 = integrationSettings st
          \<and> prisma_product_findUnique i st2 = Some (p\<lparr>stockCount := stockCount p - qty\<rparr>)"
proof -
  let ?d = "no_data\<lparr>d_stockCount := Some (stockCount p - qty)\<rparr>"
  obtain s st1 where sc: "prisma_sale_create i qty (price p * real_of_int qty) st = (s, st1)"
    by (cases "prisma_sale_create i qty (price p * real_of_int qty) st")
  then have st1: "products st1 = products st" "integrationSettings st1 = integrationSettings st"
    by (auto simp: prisma_sale_create_def Let_def)
  with assms(1) have f1: "prisma_product_findUnique i st1 = Some p"
    by (simp add: prisma_product_findUnique_def)
  let ?st2 = "st1\<lparr>products := map (\<lambda>q. if product_id q = i then apply_data ?d q else q) (products st1)\<rparr>"
  have ad: "apply_data ?d p = p\<lparr>stockCount := stockCount p - qty\<rparr>"
    by (simp add: apply_data_def no_data_def)
  have upd: "prisma_product_update i ?d st1 = Inr (apply_data ?d p, ?st2)"
    using f1 by (simp add: prisma_product_update_def no_data_def)
  from prisma_product_update_Inr [OF upd] f1
  have f2: "prisma_product_findUnique i ?st2 = Some (apply_data ?d p)" by simp
  show ?thesis
    using assms sc upd f2 st1 unfolding ad
    by (auto simp: sale_transaction_def)
qed

text \<open>
  Claim C5, as the code has it. After a sale of \<open>q\<close> on a linked product with stock
  \<open>s \<ge> q\<close>, with the integration enabled and configured, the route answers 201, the
  stored stock is \<open>s - q\<close>, and the sale has issued exactly one remote call: the
  single-product sync's update against the stored remote id, whose single variant carries
  \<open>inventory_quantity = s - q\<close>. The route does not call the inventory-only sync, so no
  inventory level is read or set.
\<close>

theorem sale_triggers_product_sync:
  assumes "session req" and "req_productId req = Some i" and "req_quantity req = Some q" and "1 \<le> q"
    and "prisma_product_findUnique i (db w) = Some p" and "q \<le> stockCount p"
    and "(case externalIds p of None \<Rightarrow> None | Some e \<Rightarrow> map_of e ''shopify'') = Some sid" and "sid \<noteq> []"
    and "getShopifyClient (db w) = Some c"
  shows "status (fst (POST_sale sh req w)) = 201
       \<and> prisma_product_findUnique i (db (snd (POST_sale sh req w))) = Some (p\<lparr>stockCount := stockCount p - q\<rparr>)
       \<and> calls (snd (POST_sale sh req w)) =
           calls w @ [ProductUpdate (parseInt sid)
                        (mapToShopifyProduct
                           (include_relations (db (snd (POST_sale sh req w)))
                              (p\<lparr>stockCount := stockCount p - q\<rparr>)))]
       \<and> map pv_inventory_quantity
             (sp_variants (mapToShopifyProduct
                             (include_relations (db (snd (POST_sale sh req w)))
                                (p\<lparr>stockCount := stockCount p - q\<rparr>))))
           = [stockCount p - q]"
proof -
  let ?p' = "p\<lparr>stockCount := stockCount p - q\<rparr>"
  from sale_transaction_ok [OF assms(5,6)] obtain s st2 where
    tx: "sale_transaction i q (db w) = Inr ((s, include_relations st2 ?p'), st2)"
    and sett: "integrationSettings st2 = integrationSettings (db w)"
    and f2: "prisma_product_findUnique i st2 = Some ?p'"
    by blast
  let ?w1 = "w\<lparr>db := st2\<rparr>"
  let ?lp = "include_relations st2 ?p'"
  have client: "getShopifyClient (db ?w1) = Some c"
    using assms(9) getShopifyClient_cong [OF sett] by simp
  from getShopifyClient_enabled [OF this] obtain ss where
    ss: "getShopifySettings st2 = Some ss" "isEnabled ss" by auto
  have link: "(case externalIds (row ?lp) of None \<Rightarrow> None | Some e \<Rightarrow> map_of e ''shopify'') = Some sid"
    using assms(7) by (simp add: include_relations_def)
  from syncProductToShopify_linked [OF client link assms(8), of sh] obtain ok r' where
    sync: "syncProductToShopify sh ?lp ?w1 =
             (ok, ?w1\<lparr>shop := r', calls := calls ?w1 @ [ProductUpdate (parseInt sid) (mapToShopifyProduct ?lp)]\<rparr>)"
    by blast
  have post: "POST_sale sh req w =
          (\<lparr>status = 201, json = SaleBody s\<rparr>,
           ?w1\<lparr>shop := r', calls := calls ?w1 @ [ProductUpdate (parseInt sid) (mapToShopifyProduct ?lp)]\<rparr>)"
    using assms(1-4) tx ss sync by (simp add: POST_sale_def)
  have inv: "map pv_inventory_quantity (sp_variants (mapToShopifyProduct ?lp)) = [stockCount p - q]"
    by (simp add: mapToShopifyProduct_def include_relations_def)
  from post f2 inv show ?thesis by simp
qed

text \<open>
  The theorem on the example installation: stock 10, a sale of 3.
\<close>

theorem sale_triggers_product_sync_witness:
  "status (fst (POST_sale example_platform \<lparr>session = True, req_productId = Some 1, req_quantity = Some 3\<rparr>
                  example_world)) = 201
   \<and> prisma_product_findUnique 1
        (db (snd (POST_sale example_platform \<lparr>session = True, req_productId = Some 1, req_quantity = Some 3\<rparr>
                    example_world)))
      = Some (linked_product\<lparr>stockCount := 7\<rparr>)
   \<and> map pv_inventory_quantity
        (sp_variants (mapToShopifyProduct
           (include_relations
              (db (snd (POST_sale example_platform
                          \<lparr>session = True, req_productId = Some 1, req_quantity = Some 3\<rparr> example_world)))
              (linked_product\<lparr>stockCount := 7\<rparr>))))
      = [7]"
proof -
  let ?req = "\<lparr>session = True, req_productId = Some 1, req_quantity = Some 3\<rparr>"
  have h1: "session ?req" "req_productId ?req = Some 1" "req_quantity ?req = Some 3" "(1::int) \<le> 3"
    by simp_all
  have h5: "prisma_product_findUnique 1 (db example_world) = Some linked_product" by code_simp
  have h6: "3 \<le> stockCount linked_product" by (simp add: linked_product_def)
  have h7: "(case externalIds linked_product of None \<Rightarrow> None | Some e \<Rightarrow> map_of e ''shopify'') = Some ''900''"
    by code_simp
  have h8: "''900'' \<noteq> []" by simp
  have h9: "getShopifyClient (db example_world)
              = Some \<lparr>shopName = ''demo-shop'', accessToken = ''token'', apiVersion = ''2023-10''\<rparr>"
    by code_simp
  have s: "stockCount linked_product - 3 = 7" by (simp add: linked_product_def)
  from sale_triggers_product_sync [where sh = example_platform, OF h1 h5 h6 h7 h8 h9]
  show ?thesis by (simp add: s)
qed

text \<open>
  Claim C5 as stated fails. On the example installation (stock 10, a sale of 3, every
  remote call succeeding) the only call the sale issues is a product update; the
  inventory-only sync with quantity 7 would have issued a product read, a level listing
  and the level write \<open>InventoryLevelSet 40 3 7\<close>.
\<close>

theorem sale_issues_no_inventory_call:
  "calls (snd (POST_sale example_platform \<lparr>session = True, req_productId = Some 1, req_quantity = Some 3\<rparr>
                 example_world))
     = [ProductUpdate (Some 900)
          (mapToShopifyProduct (include_relations example_store (linked_product\<lparr>stockCount := 7\<rparr>)))]
   \<and> syncInventoryToShopify example_platform 1 7 example_world
     = (True, example_world\<lparr>shop := example_shop\<lparr>levels := [(40, \<lparr>il_location_id = 3, il_available = Some 7\<rparr>)]\<rparr>,
                             calls := [ProductGet (Some 900), InventoryLevelList 40, InventoryLevelSet 40 3 7]\<rparr>)"
  by code_simp


section \<open>Properties of the bulk import\<close>

lemma productTypeId_for_frame:
  "products (snd (productTypeId_for rp st)) = products st"
  "integrationSettings (snd (productTypeId_for rp st)) = integrationSettings st"
  by (auto simp: productTypeId_for_def prisma_productType_create_def Let_def split: option.splits)

lemma stockCount_for_frame:
  "db (snd (stockCount_for sh rp w)) = db w"
  "filter is_list_call (calls (snd (stockCount_for sh rp w))) = filter is_list_call (calls w)"
  by (auto simp: stockCount_for_def remote_call_def is_list_call_def Let_def
           split: list.splits option.splits prod.splits)

lemma import_one_cases:
  assumes "productTypeId_for rp (db w) = (tid, st1)"
    and "stockCount_for sh rp (w\<lparr>db := st1\<rparr>) = (stock, w2)"
  shows "import_one pf sh rp w =
     (case existingProduct (toString (rp_id rp)) (db w) of
           Some e \<Rightarrow>
             (case prisma_product_update (product_id e)
                     \<lparr>d_name = Some (rp_title rp), d_description = Some (rp_body_html rp),
                      d_price = Some (pf (first_price rp)), d_stockCount = Some stock,
                      d_barcode = Some (first_barcode rp),
                      d_externalIds = Some [(''shopify'', toString (rp_id rp))]\<rparr> (db w2) of
                Inl err \<Rightarrow> (Failed, w2)
              | Inr (u, st3) \<Rightarrow> (Updated, w2\<lparr>db := st3\<rparr>))
         | None \<Rightarrow>
             (case prisma_product_create
                     \<lparr>product_id = 0, name = rp_title rp, description = rp_body_html rp,
                      barcode = uniqueBarcode (first_barcode rp) (toString (rp_id rp)) (db w2),
                      imageUrl = or_null (rp_image_src rp), price = pf (first_price rp),
                      stockCount = stock, productTypeId = tid, skuId = None,
                      externalIds = Some [(''shopify'', toString (rp_id rp))]\<rparr> (db w2) of
                Inl err \<Rightarrow> (Failed, w2)
              | Inr (c, st3) \<Rightarrow> (Imported, w2\<lparr>db := st3\<rparr>)))"
  by (simp add: import_one_def Let_def assms)

lemma import_one_list_calls:
  "filter is_list_call (calls (snd (import_one pf sh rp w))) = filter is_list_call (calls w)"
proof -
  obtain tid st1 where a: "productTypeId_for rp (db w) = (tid, st1)"
    by (cases "productTypeId_for rp (db w)")
  obtain stock w2 where b: "stockCount_for sh rp (w\<lparr>db := st1\<rparr>) = (stock, w2)"
    by (cases "stockCount_for sh rp (w\<lparr>db := st1\<rparr>)")
  have "filter is_list_call (calls w2) = filter is_list_call (calls w)"
    using stockCount_for_frame(2) [of sh rp "w\<lparr>db := st1\<rparr>"] by (simp add: b)
  then show ?thesis
    by (auto simp: import_one_cases [OF a b] split: option.splits sum.splits)
qed

lemma import_loop_list_calls:
  "filter is_list_call (calls (snd (import_loop pf sh ps cnt w))) = filter is_list_call (calls w)"
proof (induction ps arbitrary: cnt w)
  case Nil
  then show ?case by simp
next
  case (Cons rp ps)
  obtain imp fl upd where cnt: "cnt = (imp, fl, upd)" by (cases cnt)
  obtain o1 w1 where one: "import_one pf sh rp w = (o1, w1)" by (cases "import_one pf sh rp w")
  have "filter is_list_call (calls w1) = filter is_list_call (calls w)"
    using import_one_list_calls [of pf sh rp w] by (simp add: one)
  then show ?case
    using Cons.IH by (cases o1) (simp_all add: cnt one)
qed

lemma import_loop_counts:
  "import_loop pf sh ps (imp, fl, upd) w = ((imp', fl', upd'), w') \<Longrightarrow>
     imp' + fl' + upd' = imp + fl + upd + length ps"
proof (induction ps arbitrary: imp fl upd w)
  case Nil
  then show ?case by simp
next
  case (Cons rp ps)
  obtain o1 w1 where one: "import_one pf sh rp w = (o1, w1)" by (cases "import_one pf sh rp w")
  show ?case
  proof (cases o1)
    case Imported
    with Cons.prems one have "import_loop pf sh ps (imp + 1, fl, upd) w1 = ((imp', fl', upd'), w')" by simp
    from Cons.IH [OF this] show ?thesis by simp
  next
    case Updated
    with Cons.prems one have "import_loop pf sh ps (imp, fl, upd + 1) w1 = ((imp', fl', upd'), w')" by simp
    from Cons.IH [OF this] show ?thesis by simp
  next
    case Failed
    with Cons.prems one have "import_loop pf sh ps (imp, fl + 1, upd) w1 = ((imp', fl', upd'), w')" by simp
    from Cons.IH [OF this] show ?thesis by simp
  qed
qed

text \<open>
  Claim C9. Bulk import asks the platform for the catalog at most once, with the limit 50.
  When the platform honours the limit, the reported total is at most 50, and the three
  counters add up to the total.
\<close>

theorem import_requests_one_page_of_50:
  assumes "case fst (shopify_product_list sh 50 (shop w)) of None \<Rightarrow> True | Some ps \<Rightarrow> length ps \<le> 50"
  shows "total (fst (importProductsFromShopify pf sh w)) \<le> 50
       \<and> imported (fst (importProductsFromShopify pf sh w)) + updated (fst (importProductsFromShopify pf sh w))
           + failed (fst (importProductsFromShopify pf sh w)) = total (fst (importProductsFromShopify pf sh w))
       \<and> (filter is_list_call (calls (snd (importProductsFromShopify pf sh w)))
             = filter is_list_call (calls w) @ [ProductList 50]
          \<or> calls (snd (importProductsFromShopify pf sh w)) = calls w)"
proof (cases "getShopifyClient (db w)")
  case None
  then show ?thesis by (simp add: importProductsFromShopify_def import_failure_def)
next
  case (Some c)
  obtain res r' where lst: "shopify_product_list sh 50 (shop w) = (res, r')"
    by (cases "shopify_product_list sh 50 (shop w)")
  let ?w' = "w\<lparr>shop := r', calls := calls w @ [ProductList 50]\<rparr>"
  show ?thesis
  proof (cases res)
    case None
    with Some lst show ?thesis
      by (simp add: importProductsFromShopify_def import_failure_def remote_call_def is_list_call_def)
  next
    case (Some ps)
    obtain imp fl upd w'' where loop: "import_loop pf sh ps (0, 0, 0) ?w' = ((imp, fl, upd), w'')"
      by (cases "import_loop pf sh ps (0, 0, 0) ?w'") auto
    from import_loop_counts [OF loop] have sum: "imp + fl + upd = length ps" by simp
    from import_loop_list_calls [of pf sh ps "(0, 0, 0)" ?w'] loop
    have cl: "filter is_list_call (calls w'') = filter is_list_call (calls w) @ [ProductList 50]"
      by (simp add: is_list_call_def)
    from assms lst Some have len: "length ps \<le> 50" by simp
    have "importProductsFromShopify pf sh w =
            (\<lparr>success = True, total = length ps, imported = imp, failed = fl, updated = upd\<rparr>, w'')"
      using \<open>getShopifyClient (db w) = Some c\<close> lst Some loop
      by (simp add: importProductsFromShopify_def remote_call_def)
    with sum cl len show ?thesis by simp
  qed
qed

text \<open>
  The theorem on a shop with 60 products in its catalog.
\<close>

theorem import_requests_one_page_of_50_witness:
  "length (catalog big_shop) = 60
   \<and> total (fst (importProductsFromShopify example_parseFloat example_platform
                    (example_world\<lparr>shop := big_shop\<rparr>))) \<le> 50"
proof -
  have h: "case fst (shopify_product_list example_platform 50 (shop (example_world\<lparr>shop := big_shop\<rparr>))) of
             None \<Rightarrow> True | Some ps \<Rightarrow> length ps \<le> 50"
    by (simp add: example_platform_def)
  have "length (catalog big_shop) = 60" by (simp add: big_shop_def)
  with import_requests_one_page_of_50 [OF h, of example_parseFloat] show ?thesis by simp
qed

lemma existingProduct_in_set:
  "existingProduct sid st = Some e \<Longrightarrow> e \<in> set (products st)"
  by (auto simp: existingProduct_def prisma_product_findMany_def dest: find_in_set)

lemma barcode_taken_cong:
  "products st' = products st \<Longrightarrow> barcode_taken self b st' = barcode_taken self b st"
  by (simp add: barcode_taken_def split: option.splits)

lemma prisma_product_update_free:
  assumes "p \<in> set (products st)" and "\<not> barcode_taken (Some (product_id p)) b st" and "d_barcode d = Some b"
  shows "\<exists>u. prisma_product_update (product_id p) d st =
           Inr (u, st\<lparr>products := map (\<lambda>q. if product_id q = product_id p then apply_data d q else q)
                                      (products st)\<rparr>)"
proof -
  from assms(1) obtain p0 where "prisma_product_findUnique (product_id p) st = Some p0"
    unfolding prisma_product_findUnique_def
    using find_exists [of p "products st" "\<lambda>q. product_id q = product_id p"] by auto
  with assms(2,3) show ?thesis
    by (simp add: prisma_product_update_def)
qed

lemma prisma_product_update_taken:
  assumes "p \<in> set (products st)" and "barcode_taken (Some (product_id p)) b st" and "d_barcode d = Some b"
  shows "prisma_product_update (product_id p) d st = Inl UniqueConstraint"
proof -
  from assms(1) obtain p0 where "prisma_product_findUnique (product_id p) st = Some p0"
    unfolding prisma_product_findUnique_def
    using find_exists [of p "products st" "\<lambda>q. product_id q = product_id p"] by auto
  with assms(2,3) show ?thesis
    by (simp add: prisma_product_update_def)
qed

text \<open>
  What the update branch of the import does for a remote product that a local product is
  linked to: either the store performs the update, and the product's \<open>externalIds\<close>
  is afterwards exactly the one-entry object \<open>{ shopify: remoteId }\<close>, or the store
  refuses it because another product holds the remote barcode.
\<close>

lemma import_one_matched:
  assumes "existingProduct (toString (rp_id rp)) (db w) = Some e"
  shows "if barcode_taken (Some (product_id e)) (first_barcode rp) (db w)
         then fst (import_one pf sh rp w) = Failed
              \<and> products (db (snd (import_one pf sh rp w))) = products (db w)
         else fst (import_one pf sh rp w) = Updated
              \<and> map_option externalIds
                   (prisma_product_findUnique (product_id e) (db (snd (import_one pf sh rp w))))
                 = Some (Some [(''shopify'', toString (rp_id rp))])
              \<and> length (products (db (snd (import_one pf sh rp w)))) = length (products (db w))"
proof -
  obtain tid st1 where a: "productTypeId_for rp (db w) = (tid, st1)"
    by (cases "productTypeId_for rp (db w)")
  obtain stock w2 where b: "stockCount_for sh rp (w\<lparr>db := st1\<rparr>) = (stock, w2)"
    by (cases "stockCount_for sh rp (w\<lparr>db := st1\<rparr>)")
  have st1: "products st1 = products (db w)"
    using productTypeId_for_frame(1) [of rp "db w"] by (simp add: a)
  have w2: "db w2 = st1"
    using stockCount_for_frame(1) [of sh rp "w\<lparr>db := st1\<rparr>"] by (simp add: b)
  let ?d = "\<lparr>d_name = Some (rp_title rp), d_description = Some (rp_body_html rp),
             d_price = Some (pf (first_price rp)), d_stockCount = Some stock,
             d_barcode = Some (first_barcode rp),
             d_externalIds = Some [(''shopify'', toString (rp_id rp))]\<rparr>"
  have e: "e \<in> set (products st1)"
    using existingProduct_in_set [OF assms] by (simp add: st1)
  have tk: "barcode_taken (Some (product_id e)) (first_barcode rp) st1
              = barcode_taken (Some (product_id e)) (first_barcode rp) (db w)"
    using barcode_taken_cong [OF st1] by simp
  show ?thesis
  proof (cases "barcode_taken (Some (product_id e)) (first_barcode rp) (db w)")
    case True
    with tk have "barcode_taken (Some (product_id e)) (first_barcode rp) st1" by simp
    from prisma_product_update_taken [OF e this, of ?d]
    have "prisma_product_update (product_id e) ?d st1 = Inl UniqueConstraint" by simp
    with True show ?thesis
      by (simp add: import_one_cases [OF a b] assms w2 st1)
  next
    case False
    with tk have free: "\<not> barcode_taken (Some (product_id e)) (first_barcode rp) st1" by simp
    from prisma_product_update_free [OF e free, of ?d] obtain u where
      upd: "prisma_product_update (product_id e) ?d st1 =
              Inr (u, st1\<lparr>products := map (\<lambda>q. if product_id q = product_id e then apply_data ?d q else q)
                                           (products st1)\<rparr>)"
      by auto
    from prisma_product_update_Inr [OF upd] obtain p0 where
      f: "prisma_product_findUnique (product_id e)
            (st1\<lparr>products := map (\<lambda>q. if product_id q = product_id e then apply_data ?d q else q)
                                    (products st1)\<rparr>) = Some (apply_data ?d p0)"
      by blast
    have "externalIds (apply_data ?d p0) = Some [(''shopify'', toString (rp_id rp))]"
      by (simp add: apply_data_def)
    with f upd False show ?thesis
      by (simp add: import_one_cases [OF a b] assms w2 st1)
  qed
qed

text \<open>
  Claim C10 at a refused update. The linked product records 900 under \<open>shopify\<close> next
  to an entry for another system; the remote product 900 now has the barcode \<open>C\<close>, which
  another local product holds. The import matches the linked product, the update writes the
  raw remote barcode together with \<open>externalIds\<close>, the store refuses it, and the
  product is counted as failed: its \<open>externalIds\<close> still has both entries.
\<close>

theorem import_update_refused_keeps_externalIds:
  "existingProduct (toString (rp_id remote_mug_relabelled)) (db example_world) = Some linked_product
   \<and> first_barcode remote_mug_relabelled = Some ''C''
   \<and> map barcode (products (db example_world)) = [Some ''B'', Some ''C'']
   \<and> fst (import_one example_parseFloat example_platform remote_mug_relabelled example_world) = Failed
   \<and> map_option externalIds
         (prisma_product_findUnique 1
            (db (snd (import_one example_parseFloat example_platform remote_mug_relabelled example_world))))
       = Some (Some [(''woocommerce'', ''17''), (''shopify'', ''900'')])"
  by code_simp

lemma find_None_list_ex: "find P xs = None \<longleftrightarrow> \<not> list_ex P xs"
  by (induction xs) auto

lemma find_Some_list_ex: "find P xs = Some x \<Longrightarrow> list_ex P xs"
  using find_None_list_ex [of P xs] by auto

lemma barcode_taken_None:
  "barcode_taken None (Some b) st = list_ex (\<lambda>q. barcode q = Some b) (products st)"
  by (simp add: barcode_taken_def)

lemma uniqueBarcode_eq:
  "uniqueBarcode rb sid st =
     Some (case rb of
             None \<Rightarrow> ''shopify-'' @ sid
           | Some v \<Rightarrow> if list_ex (\<lambda>q. barcode q = Some v) (products st) then v @ ''-'' @ sid else v)"
  by (auto simp: uniqueBarcode_def prisma_product_findUnique_barcode_def find_None_list_ex
           split: option.splits dest: find_Some_list_ex)

text \<open>
  What the create branch of the import does for a remote product that no local product is
  linked to. The barcode \<open>ub\<close> it hands to the store is the remote barcode when no local
  product holds it, the remote barcode followed by \<open>-\<close> and the remote id when one
  does, and \<open>shopify-\<close> followed by the remote id when the remote product has no
  barcode; \<open>ub\<close> itself is not looked up before the create.
\<close>

lemma import_one_unmatched:
  assumes "existingProduct (toString (rp_id rp)) (db w) = None"
    and "ub = (case first_barcode rp of
                 None \<Rightarrow> ''shopify-'' @ toString (rp_id rp)
               | Some v \<Rightarrow> if list_ex (\<lambda>q. barcode q = Some v) (products (db w))
                           then v @ ''-'' @ toString (rp_id rp) else v)"
  shows "if list_ex (\<lambda>q. barcode q = Some ub) (products (db w))
         then fst (import_one pf sh rp w) = Failed
              \<and> products (db (snd (import_one pf sh rp w))) = products (db w)
         else fst (import_one pf sh rp w) = Imported
              \<and> (\<exists>c. products (db (snd (import_one pf sh rp w))) = products (db w) @ [c]
                      \<and> barcode c = Some ub
                      \<and> externalIds c = Some [(''shopify'', toString (rp_id rp))])"
proof -
  obtain tid st1 where a: "productTypeId_for rp (db w) = (tid, st1)"
    by (cases "productTypeId_for rp (db w)")
  obtain stock w2 where b: "stockCount_for sh rp (w\<lparr>db := st1\<rparr>) = (stock, w2)"
    by (cases "stockCount_for sh rp (w\<lparr>db := st1\<rparr>)")
  have st1: "products st1 = products (db w)"
    using productTypeId_for_frame(1) [of rp "db w"] by (simp add: a)
  have w2: "db w2 = st1"
    using stockCount_for_frame(1) [of sh rp "w\<lparr>db := st1\<rparr>"] by (simp add: b)
  have ub: "uniqueBarcode (first_barcode rp) (toString (rp_id rp)) st1 = Some ub"
    by (simp add: uniqueBarcode_eq st1 assms(2) split: option.splits)
  have taken: "barcode_taken None (Some ub) st1 = list_ex (\<lambda>q. barcode q = Some ub) (products (db w))"
    by (simp add: barcode_taken_None st1)
  show ?thesis
    by (simp add: import_one_cases [OF a b] assms(1) ub prisma_product_create_def taken Let_def w2 st1)
qed

text \<open>
  Claim C4 at a suffixed barcode that is taken. The remote product 900 has the barcode
  \<open>B\<close>, no local product is linked to it, one local product holds \<open>B\<close> and
  another holds \<open>B-900\<close>. The import suffixes the barcode to \<open>B-900\<close> without
  looking it up, the store refuses the create, and the product is counted as failed:
  the uniqueness error that the suffix was meant to avoid.
\<close>

theorem import_suffixed_barcode_taken:
  "existingProduct (toString (rp_id remote_mug)) (db taken_world) = None
   \<and> first_barcode remote_mug = Some ''B''
   \<and> map barcode (products (db taken_world)) = [Some ''B'', Some ''B-900'']
   \<and> fst (import_one example_parseFloat example_platform remote_mug taken_world) = Failed
   \<and> products (db (snd (import_one example_parseFloat example_platform remote_mug taken_world)))
      = products (db taken_world)"
  by code_simp

text \<open>
  Claim C3 at a colliding barcode. An unlinked local product holds \<open>B\<close>; the remote
  product 900 has the barcode \<open>B\<close>. The first import creates it with \<open>B-900\<close>
  (imported = 1). The second import, with the catalog unchanged, matches it by its stored
  remote id and writes the remote barcode \<open>B\<close> in the update, which the store refuses:
  the run reports failed = 1 and updated = 0. The number of products stays 2.
\<close>

theorem reimport_colliding_barcode_counts_failed:
  "fst (importProductsFromShopify example_parseFloat example_platform collision_world)
     = \<lparr>success = True, total = 1, imported = 1, failed = 0, updated = 0\<rparr>
   \<and> fst (importProductsFromShopify example_parseFloat example_platform
            (snd (importProductsFromShopify example_parseFloat example_platform collision_world)))
     = \<lparr>success = True, total = 1, imported = 0, failed = 1, updated = 0\<rparr>
   \<and> length (products (db (snd (importProductsFromShopify example_parseFloat example_platform
            (snd (importProductsFromShopify example_parseFloat example_platform collision_world)))))) = 2"
  by code_simp


lemma prisma_product_update_length:
  "prisma_product_update i d st = Inr (u, st') \<Longrightarrow> length (products st') = length (products st)"
  by (auto simp: prisma_product_update_def split: option.splits if_splits)

text \<open>
  What holds of a re-import in general: a remote product that a local product is linked to
  is never imported again and the number of products does not change, and a product
  that was imported is linked, so the next run matches it.
\<close>

lemma import_one_linked_no_create:
  assumes "existingProduct (toString (rp_id rp)) (db w) = Some e"
  shows "fst (import_one pf sh rp w) \<noteq> Imported
       \<and> length (products (db (snd (import_one pf sh rp w)))) = length (products (db w))"
proof -
  obtain tid st1 where a: "productTypeId_for rp (db w) = (tid, st1)"
    by (cases "productTypeId_for rp (db w)")
  obtain stock w2 where b: "stockCount_for sh rp (w\<lparr>db := st1\<rparr>) = (stock, w2)"
    by (cases "stockCount_for sh rp (w\<lparr>db := st1\<rparr>)")
  have st1: "products st1 = products (db w)"
    using productTypeId_for_frame(1) [of rp "db w"] by (simp add: a)
  have w2: "db w2 = st1"
    using stockCount_for_frame(1) [of sh rp "w\<lparr>db := st1\<rparr>"] by (simp add: b)
  show ?thesis
    by (auto simp: import_one_cases [OF a b] assms w2 st1 split: sum.splits
             dest: prisma_product_update_length)
qed

lemma find_append_Some: "find P xs = None \<Longrightarrow> P c \<Longrightarrow> find P (xs @ [c]) = Some c"
  by (induction xs) (auto split: if_splits)

lemma imported_product_is_matched:
  assumes "existingProduct (toString (rp_id rp)) (db w) = None"
    and "fst (import_one pf sh rp w) = Imported"
  shows "\<exists>c. existingProduct (toString (rp_id rp)) (db (snd (import_one pf sh rp w))) = Some c
           \<and> externalIds c = Some [(''shopify'', toString (rp_id rp))]"
proof -
  obtain tid st1 where a: "productTypeId_for rp (db w) = (tid, st1)"
    by (cases "productTypeId_for rp (db w)")
  obtain stock w2 where b: "stockCount_for sh rp (w\<lparr>db := st1\<rparr>) = (stock, w2)"
    by (cases "stockCount_for sh rp (w\<lparr>db := st1\<rparr>)")
  have st1: "products st1 = products (db w)"
    using productTypeId_for_frame(1) [of rp "db w"] by (simp add: a)
  have w2: "db w2 = st1"
    using stockCount_for_frame(1) [of sh rp "w\<lparr>db := st1\<rparr>"] by (simp add: b)
  from assms obtain c where c: "products (db (snd (import_one pf sh rp w))) = products (db w) @ [c]"
    and e: "externalIds c = Some [(''shopify'', toString (rp_id rp))]"
    by (auto simp: import_one_cases [OF a b] prisma_product_create_def Let_def w2 st1
             split: if_splits)
  from assms(1) e have "existingProduct (toString (rp_id rp)) (db (snd (import_one pf sh rp w))) = Some c"
    by (simp add: existingProduct_def prisma_product_findMany_def c find_append_Some)
  with e show ?thesis by blast
qed

end
